theory Spec2Isabelle
  imports Complex_Main "HOL-Library.AList" "HOL-Library.Char_ord" "HOL-Library.List_Lexorder"
begin

section \<open>Numbers\<close>

text \<open>
  The ledger computes with JavaScript numbers. A finite number is modelled by the rational
  it denotes and arithmetic on finite numbers is exact, so rounding, overflow to
  \<open>Infinity\<close> and the sign of zero are outside the model. \<open>NaN\<close> and the two infinities
  are values of the model, with the results that the language gives them: they are what a
  division by zero produces.
\<close>

datatype number = Num rat | NaN | PosInf | NegInf

text \<open>
  A numeric field of the state holds a number or \<open>null\<close>: \<open>null\<close> is what
  \<open>JSON.parse(JSON.stringify(x))\<close> leaves in the place of a number that is not finite.
  Arithmetic and comparison convert a field to a number first (\<open>null\<close> becomes \<open>0\<close>).
\<close>

datatype jsvalue = Number number | Null

fun ToNumber :: "jsvalue \<Rightarrow> number" where
  "ToNumber (Number n) = n"
| "ToNumber Null = Num 0"

fun num_add :: "number \<Rightarrow> number \<Rightarrow> number" where
  "num_add (Num a) (Num b) = Num (a + b)"
| "num_add NaN _ = NaN"
| "num_add _ NaN = NaN"
| "num_add PosInf NegInf = NaN"
| "num_add NegInf PosInf = NaN"
| "num_add PosInf _ = PosInf"
| "num_add _ PosInf = PosInf"
| "num_add NegInf _ = NegInf"
| "num_add _ NegInf = NegInf"

fun num_neg :: "number \<Rightarrow> number" where
  "num_neg (Num a) = Num (- a)"
| "num_neg NaN = NaN"
| "num_neg PosInf = NegInf"
| "num_neg NegInf = PosInf"

definition num_sub :: "number \<Rightarrow> number \<Rightarrow> number" where
  "num_sub a b = num_add a (num_neg b)"

fun num_mul :: "number \<Rightarrow> number \<Rightarrow> number" where
  "num_mul (Num a) (Num b) = Num (a * b)"
| "num_mul NaN _ = NaN"
| "num_mul _ NaN = NaN"
| "num_mul PosInf (Num b) = (if b = 0 then NaN else if 0 < b then PosInf else NegInf)"
| "num_mul NegInf (Num b) = (if b = 0 then NaN else if 0 < b then NegInf else PosInf)"
| "num_mul (Num a) PosInf = (if a = 0 then NaN else if 0 < a then PosInf else NegInf)"
| "num_mul (Num a) NegInf = (if a = 0 then NaN else if 0 < a then NegInf else PosInf)"
| "num_mul PosInf PosInf = PosInf"
| "num_mul PosInf NegInf = NegInf"
| "num_mul NegInf PosInf = NegInf"
| "num_mul NegInf NegInf = PosInf"

text \<open>
  Division. Every divisor in the program is a sum started at \<open>0\<close>, and such a sum is
  never the negative zero, so a finite number divided by zero has the sign of the
  dividend, and \<open>0 / 0\<close> is \<open>NaN\<close>.
\<close>

fun num_div :: "number \<Rightarrow> number \<Rightarrow> number" where
  "num_div (Num a) (Num b) =
     (if b = 0 then (if a = 0 then NaN else if 0 < a then PosInf else NegInf)
      else Num (a / b))"
| "num_div NaN _ = NaN"
| "num_div _ NaN = NaN"
| "num_div (Num a) PosInf = Num 0"
| "num_div (Num a) NegInf = Num 0"
| "num_div PosInf (Num b) = (if 0 \<le> b then PosInf else NegInf)"
| "num_div NegInf (Num b) = (if 0 \<le> b then NegInf else PosInf)"
| "num_div PosInf PosInf = NaN"
| "num_div PosInf NegInf = NaN"
| "num_div NegInf PosInf = NaN"
| "num_div NegInf NegInf = NaN"

text \<open>The comparison \<open>a < b\<close>: false as soon as one side is \<open>NaN\<close>.\<close>

fun num_lt :: "number \<Rightarrow> number \<Rightarrow> bool" where
  "num_lt (Num a) (Num b) = (a < b)"
| "num_lt NaN _ = False"
| "num_lt _ NaN = False"
| "num_lt NegInf NegInf = False"
| "num_lt NegInf _ = True"
| "num_lt PosInf _ = False"
| "num_lt (Num a) PosInf = True"
| "num_lt (Num a) NegInf = False"

definition num_gt :: "number \<Rightarrow> number \<Rightarrow> bool" where
  "num_gt a b = num_lt b a"

fun num_abs :: "number \<Rightarrow> number" where
  "num_abs (Num a) = Num \<bar>a\<bar>"
| "num_abs NaN = NaN"
| "num_abs PosInf = PosInf"
| "num_abs NegInf = PosInf"

text \<open>Truthiness of a number: \<open>0\<close> and \<open>NaN\<close> are falsy.\<close>

fun truthy :: "number \<Rightarrow> bool" where
  "truthy (Num a) = (a \<noteq> 0)"
| "truthy NaN = False"
| "truthy PosInf = True"
| "truthy NegInf = True"

fun is_finite :: "jsvalue \<Rightarrow> bool" where
  "is_finite (Number (Num a)) = True"
| "is_finite _ = False"

section \<open>Data model (types.ts)\<close>

text \<open>
  An object used as a dictionary is an association list in the order in which the
  language enumerates its keys; a key occurs at most once in an object.
  \<open>map_of\<close> reads a key, \<open>AList.update\<close> is the assignment \<open>obj[k] = v\<close>: it
  replaces the value of a key that is there and adds a key that is not at the end.
  Two things are left out: a new key that is an array index is enumerated before the
  other keys rather than at the end, and a key that names a property of
  \<open>Object.prototype\<close> reads as present. Addresses are taken to be neither, and a pair
  key, which contains a hyphen, is neither.
\<close>

record LiquidityPreference =
  token1 :: string
  token2 :: string
  weight :: jsvalue

record OwnershipDetails =
  percentage :: jsvalue
  tokens :: jsvalue
  voting_power :: jsvalue

record LiquidityManagerState =
  signedTxs :: "(string \<times> LiquidityPreference list) list"
  addyOwnership :: "(string \<times> OwnershipDetails) list"

text \<open>
  The fields \<open>token1\<close> and \<open>token2\<close> of an incentivized pair are named
  \<open>pair_token1\<close> and \<open>pair_token2\<close> here, apart from those of a preference.
\<close>

record IncentivizedPair =
  pair_token1 :: string
  pair_token2 :: string
  totalIncentive :: number
  addressIncentives :: "(string \<times> number) list"

record PairIncentiveDetails = IncentivizedPair +
  normalizedIncentives :: "(string \<times> number) list"

text \<open>
  The errors, named as the specification names them. The messages of the program are:
  \<open>InvalidInput\<close> 'Invalid initialization data';
  \<open>UnknownAddress\<close> 'Address not found';
  \<open>ZeroTotalWeight\<close> 'Total weight cannot be zero';
  \<open>InvalidRange\<close> 'Percentage must be between 0 and 1';
  \<open>PairNotFound\<close> 'Pair not found' and 'Token pair not found in incentives'.
\<close>

datatype error = InvalidInput | UnknownAddress | ZeroTotalWeight | InvalidRange | PairNotFound

section \<open>The typed LiquidityManager (index.ts)\<close>

text \<open>
  A method that writes the state returns its result together with the state after the
  call; a method that only reads returns its result.
\<close>

definition empty_state :: LiquidityManagerState where
  "empty_state = \<lparr>signedTxs = [], addyOwnership = []\<rparr>"

text \<open>\<open>None\<close> stands for an argument that is \<open>null\<close>, \<open>undefined\<close> or not an object.\<close>

definition initialize ::
  "LiquidityManagerState \<Rightarrow> LiquidityManagerState option
    \<Rightarrow> (error + unit) \<times> LiquidityManagerState" where
  "initialize s data =
     (case data of
        None \<Rightarrow> (Inl InvalidInput, s)
      | Some d \<Rightarrow> (Inr (), d))"

definition reset :: "LiquidityManagerState \<Rightarrow> (error + unit) \<times> LiquidityManagerState" where
  "reset s = (Inr (), empty_state)"

definition getState :: "LiquidityManagerState \<Rightarrow> LiquidityManagerState" where
  "getState s = \<lparr>signedTxs = signedTxs s, addyOwnership = addyOwnership s\<rparr>"






text \<open>The key of a pair: the template string \<open>`${token1}-${token2}`\<close>.\<close>

definition pair_key :: "string \<Rightarrow> string \<Rightarrow> string" where
  "pair_key t1 t2 = t1 @ ''-'' @ t2"

text \<open>The body of the inner loop of \<open>getIncentivizedPairs\<close>: one preference of one address.\<close>

definition add_incentive ::
  "string \<Rightarrow> OwnershipDetails \<Rightarrow> (string \<times> IncentivizedPair) list \<Rightarrow> LiquidityPreference
    \<Rightarrow> (string \<times> IncentivizedPair) list" where
  "add_incentive address ownership pairs pref =
     (let pairKey = pair_key (token1 pref) (token2 pref);
          pairs' = (case map_of pairs pairKey of
                      None \<Rightarrow> pairs @ [(pairKey,
                                \<lparr>pair_token1 = token1 pref, pair_token2 = token2 pref,
                                 totalIncentive = Num 0, addressIncentives = []\<rparr>)]
                    | Some _ \<Rightarrow> pairs);
          incentive = num_mul (ToNumber (weight pref)) (ToNumber (voting_power ownership))
      in AList.map_entry pairKey
           (\<lambda>p. p\<lparr>totalIncentive := num_add (totalIncentive p) incentive,
                  addressIncentives := AList.update address incentive (addressIncentives p)\<rparr>)
           pairs')"

text \<open>The body of the outer loop: an address without an ownership record is skipped.\<close>

definition add_address ::
  "LiquidityManagerState \<Rightarrow> (string \<times> IncentivizedPair) list
    \<Rightarrow> string \<times> LiquidityPreference list \<Rightarrow> (string \<times> IncentivizedPair) list" where
  "add_address s pairs entry =
     (case map_of (addyOwnership s) (fst entry) of
        None \<Rightarrow> pairs
      | Some ownership \<Rightarrow> foldl (add_incentive (fst entry) ownership) pairs (snd entry))"

definition incentive_table :: "LiquidityManagerState \<Rightarrow> (string \<times> IncentivizedPair) list" where
  "incentive_table s = foldl (add_address s) [] (signedTxs s)"

definition getIncentivizedPairs :: "LiquidityManagerState \<Rightarrow> error + IncentivizedPair list" where
  "getIncentivizedPairs s = Inr (map snd (incentive_table s))"

text \<open>
  \<open>Array.prototype.sort\<close> with a comparison function is stable, and for a consistent
  comparison function its result is the one of a stable insertion sort. The result of the
  comparison decides by its sign; a \<open>NaN\<close> result counts as \<open>0\<close>.
\<close>

fun insert_by :: "('a \<Rightarrow> 'a \<Rightarrow> number) \<Rightarrow> 'a \<Rightarrow> 'a list \<Rightarrow> 'a list" where
  "insert_by cmp x [] = [x]"
| "insert_by cmp x (y # ys) =
     (if num_gt (cmp x y) (Num 0) then y # insert_by cmp x ys else x # y # ys)"

definition sort_by :: "('a \<Rightarrow> 'a \<Rightarrow> number) \<Rightarrow> 'a list \<Rightarrow> 'a list" where
  "sort_by cmp xs = foldr (insert_by cmp) xs []"



definition sum_incentives :: "(string \<times> number) list \<Rightarrow> number" where
  "sum_incentives incentives = foldl (\<lambda>sum incentive. num_add sum incentive) (Num 0) (map snd incentives)"

definition getPairIncentiveDetails ::
  "LiquidityManagerState \<Rightarrow> string \<Rightarrow> string \<Rightarrow> error + PairIncentiveDetails" where
  "getPairIncentiveDetails s t1 t2 =
     (case getIncentivizedPairs s of
        Inl err \<Rightarrow> Inl err
      | Inr pairs \<Rightarrow>
          (case find (\<lambda>p. (pair_token1 p = t1 \<and> pair_token2 p = t2) \<or>
                          (pair_token1 p = t2 \<and> pair_token2 p = t1)) pairs of
             None \<Rightarrow> Inl PairNotFound
           | Some pair \<Rightarrow>
               (let totalIncentive' = sum_incentives (addressIncentives pair);
                    normalizedIncentives' =
                      map (\<lambda>(address, incentive). (address, num_div incentive totalIncentive'))
                        (addressIncentives pair)
                in Inr \<lparr>pair_token1 = pair_token1 pair, pair_token2 = pair_token2 pair,
                        totalIncentive = totalIncentive',
                        addressIncentives = addressIncentives pair,
                        normalizedIncentives = normalizedIncentives'\<rparr>)))"

section \<open>The untyped LiquidityManager (index.js)\<close>

text \<open>
  The instance holds its two tables in two fields. Preferences and ownership records have
  the shape of the typed ones; an entry of the incentive table names its per-address map
  \<open>addressContributions\<close>.
\<close>

record Ledger_js =
  signed_txs :: "(string \<times> LiquidityPreference list) list"
  addy_ownership :: "(string \<times> OwnershipDetails) list"

text \<open>
  The argument of \<open>initialize\<close>: its fields \<open>signedTxs\<close> and \<open>addyOwnership\<close>, each
  of which may be missing.
\<close>

record Options_js =
  signedTxs_opt :: "(string \<times> LiquidityPreference list) list option"
  addyOwnership_opt :: "(string \<times> OwnershipDetails) list option"

record PairIncentive_js =
  token1_js :: string
  token2_js :: string
  totalIncentive_js :: number
  addressContributions :: "(string \<times> number) list"

text \<open>
  \<open>JSON.parse(JSON.stringify(x))\<close>: a copy of \<open>x\<close> in which every number that is not
  finite has become \<open>null\<close>.
\<close>

fun json_number :: "jsvalue \<Rightarrow> jsvalue" where
  "json_number (Number (Num a)) = Number (Num a)"
| "json_number (Number _) = Null"
| "json_number Null = Null"

definition json_signedTxs ::
  "(string \<times> LiquidityPreference list) list \<Rightarrow> (string \<times> LiquidityPreference list) list" where
  "json_signedTxs txs =
     map (\<lambda>(address, allocations).
            (address, map (\<lambda>a. \<lparr>token1 = token1 a, token2 = token2 a,
                                 weight = json_number (weight a)\<rparr>) allocations)) txs"

definition json_addyOwnership ::
  "(string \<times> OwnershipDetails) list \<Rightarrow> (string \<times> OwnershipDetails) list" where
  "json_addyOwnership own =
     map (\<lambda>(address, d).
            (address, \<lparr>percentage = json_number (percentage d), tokens = json_number (tokens d),
                       voting_power = json_number (voting_power d)\<rparr>)) own"

definition new_js :: Ledger_js where
  "new_js = \<lparr>signed_txs = [], addy_ownership = []\<rparr>"

definition initialize_js :: "Ledger_js \<Rightarrow> Options_js \<Rightarrow> (error + bool) \<times> Ledger_js" where
  "initialize_js j options =
     (let j1 = (case signedTxs_opt options of
                  Some txs \<Rightarrow> j\<lparr>signed_txs := json_signedTxs txs\<rparr>
                | None \<Rightarrow> j);
          j2 = (case addyOwnership_opt options of
                  Some own \<Rightarrow> j1\<lparr>addy_ownership := json_addyOwnership own\<rparr>
                | None \<Rightarrow> j1)
      in (Inr True, j2))"

definition reset_js :: "Ledger_js \<Rightarrow> (error + bool) \<times> Ledger_js" where
  "reset_js j = (Inr True, \<lparr>signed_txs = [], addy_ownership = []\<rparr>)"

definition getState_js :: "Ledger_js \<Rightarrow> error + Ledger_js" where
  "getState_js j =
     Inr \<lparr>signed_txs = json_signedTxs (signed_txs j),
          addy_ownership = json_addyOwnership (addy_ownership j)\<rparr>"

text \<open>The test \<open>Math.abs(x - 1.0) > 0.001\<close>.\<close>

definition off_unit :: "number \<Rightarrow> bool" where
  "off_unit x = num_gt (num_abs (num_sub x (Num 1))) (Num (1 / 1000))"




text \<open>\<open>[a, b].sort()\<close>: the two strings in ascending order, \<open>a\<close> first when they are equal.\<close>

definition sort_tokens :: "string \<Rightarrow> string \<Rightarrow> string \<times> string" where
  "sort_tokens a b = (if b < a then (b, a) else (a, b))"

definition add_contribution ::
  "string \<Rightarrow> number \<Rightarrow> (string \<times> PairIncentive_js) list \<Rightarrow> LiquidityPreference
    \<Rightarrow> (string \<times> PairIncentive_js) list" where
  "add_contribution address votingPower pairIncentives pair =
     (let (t1, t2) = sort_tokens (token1 pair) (token2 pair);
          pairKey = pair_key t1 t2;
          pairIncentives' =
            (case map_of pairIncentives pairKey of
               None \<Rightarrow> pairIncentives @ [(pairKey,
                         \<lparr>token1_js = t1, token2_js = t2, totalIncentive_js = Num 0,
                          addressContributions = []\<rparr>)]
             | Some _ \<Rightarrow> pairIncentives);
          contribution = num_mul votingPower (ToNumber (weight pair))
      in AList.map_entry pairKey
           (\<lambda>p. p\<lparr>totalIncentive_js := num_add (totalIncentive_js p) contribution,
                  addressContributions := AList.update address contribution (addressContributions p)\<rparr>)
           pairIncentives')"

text \<open>\<open>this.addy_ownership[address]?.voting_power || 0\<close>.\<close>

definition votingPower_js :: "Ledger_js \<Rightarrow> string \<Rightarrow> number" where
  "votingPower_js j address =
     (case map_of (addy_ownership j) address of
        None \<Rightarrow> Num 0
      | Some d \<Rightarrow> (if truthy (ToNumber (voting_power d)) then ToNumber (voting_power d) else Num 0))"

definition add_address_js ::
  "Ledger_js \<Rightarrow> (string \<times> PairIncentive_js) list \<Rightarrow> string \<times> LiquidityPreference list
    \<Rightarrow> (string \<times> PairIncentive_js) list" where
  "add_address_js j pairIncentives entry =
     foldl (add_contribution (fst entry) (votingPower_js j (fst entry))) pairIncentives (snd entry)"

definition getIncentivizedPairs_js :: "Ledger_js \<Rightarrow> error + (string \<times> PairIncentive_js) list" where
  "getIncentivizedPairs_js j = Inr (foldl (add_address_js j) [] (signed_txs j))"



section \<open>Notions used in the statements\<close>

subsection \<open>Finite numbers\<close>

text \<open>Every numeric field of the two tables is a finite number.\<close>

definition finite_numbers ::
  "(string \<times> LiquidityPreference list) list \<Rightarrow> (string \<times> OwnershipDetails) list \<Rightarrow> bool" where
  "finite_numbers txs own =
     (list_all (\<lambda>(address, preferences). list_all (\<lambda>p. is_finite (weight p)) preferences) txs \<and>
      list_all (\<lambda>(address, d). is_finite (percentage d) \<and> is_finite (tokens d) \<and>
                  is_finite (voting_power d)) own)"





subsection \<open>The loop body of the typed aggregation, in parts\<close>

text \<open>The key of a preference.\<close>

definition pref_key :: "LiquidityPreference \<Rightarrow> string" where
  "pref_key pref = pair_key (token1 pref) (token2 pref)"

text \<open>The entry that \<open>getIncentivizedPairs\<close> creates for a key it has not seen.\<close>

definition fresh_pair :: "LiquidityPreference \<Rightarrow> IncentivizedPair" where
  "fresh_pair pref =
     \<lparr>pair_token1 = token1 pref, pair_token2 = token2 pref, totalIncentive = Num 0,
      addressIncentives = []\<rparr>"

text \<open>The update of an entry by the incentive of an address.\<close>

definition bump_pair :: "string \<Rightarrow> number \<Rightarrow> IncentivizedPair \<Rightarrow> IncentivizedPair" where
  "bump_pair address incentive p =
     p\<lparr>totalIncentive := num_add (totalIncentive p) incentive,
       addressIncentives := AList.update address incentive (addressIncentives p)\<rparr>"

definition incentive_of :: "OwnershipDetails \<Rightarrow> LiquidityPreference \<Rightarrow> number" where
  "incentive_of ownership pref =
     num_mul (ToNumber (weight pref)) (ToNumber (voting_power ownership))"

text \<open>
  No address occurs twice in the preference table, and no address has two preference
  records with the same pair key.
\<close>

definition no_repeated_pair :: "LiquidityManagerState \<Rightarrow> bool" where
  "no_repeated_pair s =
     (distinct (map fst (signedTxs s)) \<and>
      list_all (\<lambda>(address, preferences). distinct (map pref_key preferences)) (signedTxs s))"


subsection \<open>The loop body of the untyped aggregation, in parts\<close>

text \<open>The key under which the untyped manager files a preference.\<close>

definition pref_key_js :: "LiquidityPreference \<Rightarrow> string" where
  "pref_key_js pref = (let (t1, t2) = sort_tokens (token1 pref) (token2 pref) in pair_key t1 t2)"




text \<open>The key that the untyped manager looks up for two tokens.\<close>

definition query_key_js :: "string \<Rightarrow> string \<Rightarrow> string" where
  "query_key_js t1 t2 = (let (a, b) = sort_tokens t1 t2 in pair_key a b)"


section \<open>Example states\<close>

text \<open>The state of the tests of \<open>getIncentivizedPairs\<close>, with A, B, X and Y as names.\<close>

definition scenario :: LiquidityManagerState where
  "scenario =
     \<lparr>signedTxs =
        [(''A'', [\<lparr>token1 = ''X'', token2 = ''Y'', weight = Number (Num (7 / 10))\<rparr>]),
         (''B'', [\<lparr>token1 = ''X'', token2 = ''Y'', weight = Number (Num (5 / 10))\<rparr>])],
      addyOwnership =
        [(''A'', \<lparr>percentage = Number (Num (6 / 10)), tokens = Number (Num 1000000),
                  voting_power = Number (Num (6 / 10))\<rparr>),
         (''B'', \<lparr>percentage = Number (Num (4 / 10)), tokens = Number (Num 500000),
                  voting_power = Number (Num (4 / 10))\<rparr>)]\<rparr>"

definition scenario_js :: Ledger_js where
  "scenario_js = \<lparr>signed_txs = signedTxs scenario, addy_ownership = addyOwnership scenario\<rparr>"








text \<open>One address with two records for one pair key.\<close>

definition repeated_pair :: LiquidityManagerState where
  "repeated_pair =
     \<lparr>signedTxs = [(''A'', [\<lparr>token1 = ''X'', token2 = ''Y'', weight = Number (Num (1 / 2))\<rparr>,
                           \<lparr>token1 = ''X'', token2 = ''Y'', weight = Number (Num (1 / 4))\<rparr>])],
      addyOwnership = [(''A'', \<lparr>percentage = Number (Num 1), tokens = Number (Num 1000),
                                voting_power = Number (Num 1)\<rparr>)]\<rparr>"

section \<open>The scenario of the test suites\<close>

text \<open>
  C1. With ownership A: 0.6 and B: 0.4 and the preferences A: (X, Y, 0.7) and
  B: (X, Y, 0.5), \<open>getIncentivizedPairs\<close> yields exactly one pair, X-Y, with total
  incentive 0.62 and the contributions A: 0.42 and B: 0.2, in the typed and in the untyped
  manager.
\<close>

theorem scenario_incentivized_pairs:
  "getIncentivizedPairs scenario =
     Inr [\<lparr>pair_token1 = ''X'', pair_token2 = ''Y'', totalIncentive = Num (62 / 100),
           addressIncentives = [(''A'', Num (42 / 100)), (''B'', Num (2 / 10))]\<rparr>] \<and>
   getIncentivizedPairs_js scenario_js =
     Inr [(''X-Y'',
           \<lparr>token1_js = ''X'', token2_js = ''Y'', totalIncentive_js = Num (62 / 100),
            addressContributions = [(''A'', Num (42 / 100)), (''B'', Num (2 / 10))]\<rparr>)]"
  by (simp add: getIncentivizedPairs_def incentive_table_def add_address_def add_incentive_def
      getIncentivizedPairs_js_def add_address_js_def add_contribution_def votingPower_js_def
      sort_tokens_def pair_key_def scenario_def scenario_js_def Let_def)

section \<open>Loading and reading back\<close>

lemma json_number_finite: "is_finite v \<Longrightarrow> json_number v = v"
  by (cases v rule: is_finite.cases) simp_all

lemma json_signedTxs_id:
  "list_all (\<lambda>(address, preferences). list_all (\<lambda>p. is_finite (weight p)) preferences) txs
    \<Longrightarrow> json_signedTxs txs = txs"
  unfolding json_signedTxs_def
  by (rule map_idI) (auto simp: list_all_iff json_number_finite intro!: map_idI)

lemma json_addyOwnership_id:
  "list_all (\<lambda>(address, d). is_finite (percentage d) \<and> is_finite (tokens d) \<and>
                  is_finite (voting_power d)) own
    \<Longrightarrow> json_addyOwnership own = own"
  unfolding json_addyOwnership_def
  by (rule map_idI) (auto simp: list_all_iff json_number_finite)

text \<open>
  C7. Loading a state whose numeric fields are finite numbers and reading the state back
  gives the loaded state: nothing is normalized or validated on the way. The untyped
  manager takes the two tables as \<open>signedTxs\<close> and \<open>addyOwnership\<close> and returns them as
  \<open>signed_txs\<close> and \<open>addy_ownership\<close>.
\<close>

theorem load_then_read_back:
  assumes "finite_numbers (signedTxs s) (addyOwnership s)"
  shows "initialize s0 (Some s) = (Inr (), s) \<and> getState s = s \<and>
         getState_js (snd (initialize_js j0
             \<lparr>signedTxs_opt = Some (signedTxs s), addyOwnership_opt = Some (addyOwnership s)\<rparr>))
           = Inr \<lparr>signed_txs = signedTxs s, addy_ownership = addyOwnership s\<rparr>"
  using assms
  by (simp add: initialize_def getState_def initialize_js_def getState_js_def finite_numbers_def
      json_signedTxs_id json_addyOwnership_id)

theorem load_then_read_back_witness:
  "finite_numbers (signedTxs scenario) (addyOwnership scenario) \<and>
   getState (snd (initialize empty_state (Some scenario))) = scenario \<and>
   getState_js (snd (initialize_js new_js
       \<lparr>signedTxs_opt = Some (signedTxs scenario),
        addyOwnership_opt = Some (addyOwnership scenario)\<rparr>))
     = Inr \<lparr>signed_txs = signedTxs scenario, addy_ownership = addyOwnership scenario\<rparr>"
proof -
  have h: "finite_numbers (signedTxs scenario) (addyOwnership scenario)"
    by (simp add: finite_numbers_def scenario_def)
  from load_then_read_back [OF h, of empty_state new_js] h show ?thesis by simp
qed

section \<open>Validation of the stake fraction\<close>




section \<open>Sums of finite numbers\<close>







section \<open>Normalization of the weights of an address\<close>




section \<open>Errors of the normalization\<close>




section \<open>Recalculation of the voting power\<close>

lemma num_add_NaN_right [simp]: "num_add a NaN = NaN"
  by (cases a) simp_all











lemma num_div_NaN_right [simp]: "num_div a NaN = NaN"
  by (cases a) simp_all

lemma off_unit_NaN [simp]: "\<not> off_unit NaN"
  by (simp add: off_unit_def num_sub_def num_gt_def)

lemma off_unit_one [simp]: "\<not> off_unit (Num 1)"
  by (simp add: off_unit_def num_sub_def num_gt_def)








section \<open>The top pairs\<close>

lemma length_insert_by [simp]: "length (insert_by cmp x ys) = Suc (length ys)"
  by (induction ys) simp_all

lemma set_insert_by [simp]: "set (insert_by cmp x ys) = insert x (set ys)"
  by (induction ys) auto

lemma length_sort_by [simp]: "length (sort_by cmp xs) = length xs"
  by (induction xs) (simp_all add: sort_by_def)

lemma set_sort_by [simp]: "set (sort_by cmp xs) = set xs"
  by (induction xs) (simp_all add: sort_by_def)






lemma set_map_entry:
  "set (AList.map_entry k f xs) \<subseteq> set xs \<union> {(k, f v) | v. (k, v) \<in> set xs}"
  by (induction xs) auto















section \<open>Totals and per-address contributions\<close>

lemma map_entry_snoc_fresh:
  "k \<notin> fst ` set xs \<Longrightarrow> AList.map_entry k f (xs @ [(k, v)]) = xs @ [(k, f v)]"
  by (induction xs) auto

lemma add_incentive_fresh:
  assumes "map_of pairs (pref_key pref) = None"
  shows "add_incentive address ownership pairs pref
           = pairs @ [(pref_key pref,
                       bump_pair address (incentive_of ownership pref) (fresh_pair pref))]"
proof -
  from assms have "pref_key pref \<notin> fst ` set pairs"
    by (simp add: map_of_eq_None_iff)
  then have "AList.map_entry (pref_key pref) (bump_pair address (incentive_of ownership pref))
               (pairs @ [(pref_key pref, fresh_pair pref)])
             = pairs @ [(pref_key pref,
                         bump_pair address (incentive_of ownership pref) (fresh_pair pref))]"
    by (rule map_entry_snoc_fresh)
  with assms show ?thesis
    by (simp add: add_incentive_def Let_def pref_key_def fresh_pair_def bump_pair_def [abs_def]
        incentive_of_def)
qed

lemma add_incentive_known:
  assumes "map_of pairs (pref_key pref) = Some p"
  shows "add_incentive address ownership pairs pref
           = AList.map_entry (pref_key pref) (bump_pair address (incentive_of ownership pref)) pairs"
  using assms
  by (simp add: add_incentive_def Let_def pref_key_def bump_pair_def [abs_def] incentive_of_def)

lemma add_incentive_entries:
  assumes "e \<in> set (add_incentive address ownership pairs pref)"
  shows "e \<in> set pairs \<or>
         (\<exists>p. ((pref_key pref, p) \<in> set pairs \<or> p = fresh_pair pref) \<and>
              e = (pref_key pref, bump_pair address (incentive_of ownership pref) p))"
proof (cases "map_of pairs (pref_key pref)")
  case None
  with assms show ?thesis by (auto simp: add_incentive_fresh)
next
  case (Some p)
  with assms set_map_entry show ?thesis
    by (fastforce simp: add_incentive_known)
qed

lemma addresses_bump_pair:
  "fst ` set (addressIncentives (bump_pair address c p))
     = insert address (fst ` set (addressIncentives p))"
  by (simp add: bump_pair_def dom_update)

lemma update_fresh_key:
  "k \<notin> fst ` set xs \<Longrightarrow> AList.update k v xs = xs @ [(k, v)]"
  by (induction xs) auto

lemma sum_incentives_snoc:
  "sum_incentives (xs @ [(k, v)]) = num_add (sum_incentives xs) v"
  by (simp add: sum_incentives_def)

text \<open>The invariant of the inner loop, for the address that is being processed.\<close>

lemma add_incentive_invariant:
  assumes tot: "\<forall>e\<in>set pairs. totalIncentive (snd e) = sum_incentives (addressIncentives (snd e))"
    and seen: "\<forall>e\<in>set pairs. address \<in> fst ` set (addressIncentives (snd e)) \<longrightarrow> fst e \<in> K"
    and new: "pref_key pref \<notin> K"
  shows "(\<forall>e\<in>set (add_incentive address ownership pairs pref).
            totalIncentive (snd e) = sum_incentives (addressIncentives (snd e))) \<and>
         (\<forall>e\<in>set (add_incentive address ownership pairs pref).
            address \<in> fst ` set (addressIncentives (snd e)) \<longrightarrow> fst e \<in> insert (pref_key pref) K)"
proof -
  let ?c = "incentive_of ownership pref"
  have bump: "totalIncentive (bump_pair address ?c p) = sum_incentives (addressIncentives (bump_pair address ?c p))"
    if "(pref_key pref, p) \<in> set pairs \<or> p = fresh_pair pref" for p
  proof -
    from that have "totalIncentive p = sum_incentives (addressIncentives p) \<and>
                    address \<notin> fst ` set (addressIncentives p)"
    proof
      assume "(pref_key pref, p) \<in> set pairs"
      with tot seen new show ?thesis by fastforce
    next
      assume "p = fresh_pair pref"
      then show ?thesis by (simp add: fresh_pair_def sum_incentives_def)
    qed
    then show ?thesis
      by (simp add: bump_pair_def update_fresh_key sum_incentives_snoc)
  qed
  show ?thesis
  proof (intro conjI ballI)
    fix e assume "e \<in> set (add_incentive address ownership pairs pref)"
    from add_incentive_entries [OF this] tot bump
    show "totalIncentive (snd e) = sum_incentives (addressIncentives (snd e))"
      by auto
  next
    fix e assume "e \<in> set (add_incentive address ownership pairs pref)"
    from add_incentive_entries [OF this] seen
    show "address \<in> fst ` set (addressIncentives (snd e)) \<longrightarrow> fst e \<in> insert (pref_key pref) K"
      by fastforce
  qed
qed

lemma foldl_add_incentive_invariant:
  assumes "\<forall>e\<in>set pairs. totalIncentive (snd e) = sum_incentives (addressIncentives (snd e))"
    and "\<forall>e\<in>set pairs. address \<in> fst ` set (addressIncentives (snd e)) \<longrightarrow> fst e \<in> K"
    and "distinct (map pref_key preferences)"
    and "\<forall>p\<in>set preferences. pref_key p \<notin> K"
  shows "\<forall>e\<in>set (foldl (add_incentive address ownership) pairs preferences).
            totalIncentive (snd e) = sum_incentives (addressIncentives (snd e))"
  using assms
proof (induction preferences arbitrary: pairs K)
  case Nil
  then show ?case by simp
next
  case (Cons pref preferences)
  from Cons.prems(4) have new: "pref_key pref \<notin> K" by simp
  note step = add_incentive_invariant [OF Cons.prems(1) Cons.prems(2) new, of ownership]
  have "\<forall>e\<in>set (foldl (add_incentive address ownership)
                    (add_incentive address ownership pairs pref) preferences).
          totalIncentive (snd e) = sum_incentives (addressIncentives (snd e))"
  proof (rule Cons.IH)
    show "\<forall>e\<in>set (add_incentive address ownership pairs pref).
            totalIncentive (snd e) = sum_incentives (addressIncentives (snd e))"
      using step by blast
    show "\<forall>e\<in>set (add_incentive address ownership pairs pref).
            address \<in> fst ` set (addressIncentives (snd e)) \<longrightarrow> fst e \<in> insert (pref_key pref) K"
      using step by blast
    show "distinct (map pref_key preferences)"
      using Cons.prems(3) by simp
    show "\<forall>p\<in>set preferences. pref_key p \<notin> insert (pref_key pref) K"
    proof
      fix p assume p: "p \<in> set preferences"
      with Cons.prems(3) have "pref_key p \<noteq> pref_key pref"
        by (metis distinct.simps(2) image_eqI list.simps(9) set_map)
      moreover from p Cons.prems(4) have "pref_key p \<notin> K" by simp
      ultimately show "pref_key p \<notin> insert (pref_key pref) K" by simp
    qed
  qed
  then show ?case by simp
qed

text \<open>The addresses that have contributed to an entry are among those processed.\<close>

lemma add_incentive_addresses:
  assumes "\<forall>e\<in>set pairs. fst ` set (addressIncentives (snd e)) \<subseteq> A"
  shows "\<forall>e\<in>set (add_incentive address ownership pairs pref).
           fst ` set (addressIncentives (snd e)) \<subseteq> insert address A"
proof
  fix e assume "e \<in> set (add_incentive address ownership pairs pref)"
  from add_incentive_entries [OF this]
  show "fst ` set (addressIncentives (snd e)) \<subseteq> insert address A"
  proof
    assume "e \<in> set pairs"
    with assms show ?thesis by blast
  next
    assume "\<exists>p. ((pref_key pref, p) \<in> set pairs \<or> p = fresh_pair pref) \<and>
              e = (pref_key pref, bump_pair address (incentive_of ownership pref) p)"
    then obtain p where p: "(pref_key pref, p) \<in> set pairs \<or> p = fresh_pair pref"
      and e: "e = (pref_key pref, bump_pair address (incentive_of ownership pref) p)"
      by blast
    from p assms have "fst ` set (addressIncentives p) \<subseteq> A"
      by (fastforce simp: fresh_pair_def)
    with e show ?thesis
      by (simp add: addresses_bump_pair subset_insertI2)
  qed
qed

lemma foldl_add_incentive_addresses:
  "\<forall>e\<in>set pairs. fst ` set (addressIncentives (snd e)) \<subseteq> insert address A \<Longrightarrow>
   \<forall>e\<in>set (foldl (add_incentive address ownership) pairs preferences).
      fst ` set (addressIncentives (snd e)) \<subseteq> insert address A"
proof (induction preferences arbitrary: pairs)
  case Nil
  then show ?case by simp
next
  case (Cons pref preferences)
  from add_incentive_addresses [OF Cons.prems, of address ownership pref]
  have "\<forall>e\<in>set (add_incentive address ownership pairs pref).
          fst ` set (addressIncentives (snd e)) \<subseteq> insert address A"
    by simp
  from Cons.IH [OF this] show ?case by simp
qed


lemma add_address_invariant:
  assumes tot: "\<forall>e\<in>set pairs. totalIncentive (snd e) = sum_incentives (addressIncentives (snd e))"
    and addrs: "\<forall>e\<in>set pairs. fst ` set (addressIncentives (snd e)) \<subseteq> A"
    and new: "fst entry \<notin> A"
    and keys: "distinct (map pref_key (snd entry))"
  shows "(\<forall>e\<in>set (add_address s pairs entry).
            totalIncentive (snd e) = sum_incentives (addressIncentives (snd e))) \<and>
         (\<forall>e\<in>set (add_address s pairs entry).
            fst ` set (addressIncentives (snd e)) \<subseteq> insert (fst entry) A)"
proof (cases "map_of (addyOwnership s) (fst entry)")
  case None
  with tot addrs show ?thesis by (auto simp: add_address_def)
next
  case (Some ownership)
  have seen: "\<forall>e\<in>set pairs. fst entry \<in> fst ` set (addressIncentives (snd e)) \<longrightarrow> fst e \<in> {}"
    using addrs new by blast
  have 1: "\<forall>e\<in>set (foldl (add_incentive (fst entry) ownership) pairs (snd entry)).
             totalIncentive (snd e) = sum_incentives (addressIncentives (snd e))"
    using tot seen keys by (rule foldl_add_incentive_invariant) simp
  have "\<forall>e\<in>set pairs. fst ` set (addressIncentives (snd e)) \<subseteq> insert (fst entry) A"
    using addrs by blast
  then have 2: "\<forall>e\<in>set (foldl (add_incentive (fst entry) ownership) pairs (snd entry)).
             fst ` set (addressIncentives (snd e)) \<subseteq> insert (fst entry) A"
    by (rule foldl_add_incentive_addresses)
  from 1 2 Some show ?thesis by (simp add: add_address_def)
qed

lemma foldl_add_address_invariant:
  assumes "\<forall>e\<in>set pairs. totalIncentive (snd e) = sum_incentives (addressIncentives (snd e))"
    and "\<forall>e\<in>set pairs. fst ` set (addressIncentives (snd e)) \<subseteq> A"
    and "distinct (map fst txs)"
    and "\<forall>entry\<in>set txs. fst entry \<notin> A"
    and "\<forall>entry\<in>set txs. distinct (map pref_key (snd entry))"
  shows "\<forall>e\<in>set (foldl (add_address s) pairs txs).
            totalIncentive (snd e) = sum_incentives (addressIncentives (snd e))"
  using assms
proof (induction txs arbitrary: pairs A)
  case Nil
  then show ?case by simp
next
  case (Cons entry txs)
  have step: "(\<forall>e\<in>set (add_address s pairs entry).
            totalIncentive (snd e) = sum_incentives (addressIncentives (snd e))) \<and>
         (\<forall>e\<in>set (add_address s pairs entry).
            fst ` set (addressIncentives (snd e)) \<subseteq> insert (fst entry) A)"
    using Cons.prems by (intro add_address_invariant) simp_all
  have "\<forall>e\<in>set (foldl (add_address s) (add_address s pairs entry) txs).
          totalIncentive (snd e) = sum_incentives (addressIncentives (snd e))"
  proof (rule Cons.IH)
    show "\<forall>e\<in>set (add_address s pairs entry).
            totalIncentive (snd e) = sum_incentives (addressIncentives (snd e))"
      using step by blast
    show "\<forall>e\<in>set (add_address s pairs entry).
            fst ` set (addressIncentives (snd e)) \<subseteq> insert (fst entry) A"
      using step by blast
    show "distinct (map fst txs)" using Cons.prems(3) by simp
    show "\<forall>entry'\<in>set txs. fst entry' \<notin> insert (fst entry) A"
    proof
      fix entry' assume e': "entry' \<in> set txs"
      then have "fst entry' \<in> fst ` set txs" by (rule imageI)
      moreover from Cons.prems(3) have "fst entry \<notin> fst ` set txs" by simp
      ultimately have "fst entry' \<noteq> fst entry" by metis
      moreover from e' Cons.prems(4) have "fst entry' \<notin> A" by simp
      ultimately show "fst entry' \<notin> insert (fst entry) A" by simp
    qed
    show "\<forall>entry\<in>set txs. distinct (map pref_key (snd entry))"
      using Cons.prems(5) by simp
  qed
  then show ?case by simp
qed

lemma incentive_table_totals:
  assumes "no_repeated_pair s"
  shows "\<forall>e\<in>set (incentive_table s).
           totalIncentive (snd e) = sum_incentives (addressIncentives (snd e))"
  unfolding incentive_table_def
proof (rule foldl_add_address_invariant [where A = "{}"])
  show "distinct (map fst (signedTxs s))"
    using assms by (simp add: no_repeated_pair_def)
  show "\<forall>entry\<in>set (signedTxs s). distinct (map pref_key (snd entry))"
    using assms by (auto simp: no_repeated_pair_def list_all_iff)
qed simp_all

lemma getPairIncentiveDetails_Inr:
  assumes "getPairIncentiveDetails s t1 t2 = Inr d"
  shows "\<exists>p\<in>set (map snd (incentive_table s)).
           ((pair_token1 p = t1 \<and> pair_token2 p = t2) \<or> (pair_token1 p = t2 \<and> pair_token2 p = t1)) \<and>
           pair_token1 d = pair_token1 p \<and> pair_token2 d = pair_token2 p \<and>
           addressIncentives d = addressIncentives p \<and>
           totalIncentive d = sum_incentives (addressIncentives p) \<and>
           normalizedIncentives d =
             map (\<lambda>(address, incentive). (address, num_div incentive (totalIncentive d)))
               (addressIncentives p)"
proof -
  let ?P = "\<lambda>p. (pair_token1 p = t1 \<and> pair_token2 p = t2) \<or> (pair_token1 p = t2 \<and> pair_token2 p = t1)"
  from assms obtain p where p: "find ?P (map snd (incentive_table s)) = Some p"
    by (auto simp: getPairIncentiveDetails_def getIncentivizedPairs_def split: option.splits)
  then have "p \<in> set (map snd (incentive_table s))" "?P p"
    by (auto simp: find_Some_iff)
  moreover from assms p have "d = \<lparr>pair_token1 = pair_token1 p, pair_token2 = pair_token2 p,
        totalIncentive = sum_incentives (addressIncentives p),
        addressIncentives = addressIncentives p,
        normalizedIncentives =
          map (\<lambda>(address, incentive). (address, num_div incentive (sum_incentives (addressIncentives p))))
            (addressIncentives p)\<rparr>"
    by (simp add: getPairIncentiveDetails_def getIncentivizedPairs_def Let_def)
  ultimately show ?thesis by (intro bexI [of _ p]) simp_all
qed

text \<open>
  C10. In a state in which no address has two preference records with the same pair key,
  every pair that the typed \<open>getIncentivizedPairs\<close> produces has a total incentive equal to
  the sum of its per-address contributions, so the total that \<open>getPairIncentiveDetails\<close>
  recomputes from the per-address map is the total of the pair.
\<close>

theorem total_is_sum_of_contributions:
  assumes "no_repeated_pair s"
  shows "\<exists>pairs. getIncentivizedPairs s = Inr pairs \<and>
           (\<forall>p\<in>set pairs. totalIncentive p = sum_incentives (addressIncentives p)) \<and>
           (\<forall>t1 t2 d. getPairIncentiveDetails s t1 t2 = Inr d \<longrightarrow>
              (\<exists>p\<in>set pairs. pair_token1 p = pair_token1 d \<and> pair_token2 p = pair_token2 d \<and>
                  addressIncentives p = addressIncentives d \<and>
                  totalIncentive p = totalIncentive d))"
proof -
  have tot: "\<forall>p\<in>set (map snd (incentive_table s)).
               totalIncentive p = sum_incentives (addressIncentives p)"
    using incentive_table_totals [OF assms] by auto
  have "\<exists>p\<in>set (map snd (incentive_table s)). pair_token1 p = pair_token1 d \<and>
          pair_token2 p = pair_token2 d \<and> addressIncentives p = addressIncentives d \<and>
          totalIncentive p = totalIncentive d"
    if "getPairIncentiveDetails s t1 t2 = Inr d" for t1 t2 d
  proof -
    from getPairIncentiveDetails_Inr [OF that] obtain p
      where p: "p \<in> set (map snd (incentive_table s))"
        and d: "pair_token1 d = pair_token1 p" "pair_token2 d = pair_token2 p"
        "addressIncentives d = addressIncentives p"
        "totalIncentive d = sum_incentives (addressIncentives p)"
      by blast
    from tot p have "totalIncentive p = sum_incentives (addressIncentives p)" by blast
    with p d show ?thesis by (intro bexI [of _ p]) simp_all
  qed
  with tot show ?thesis by (simp add: getIncentivizedPairs_def)
qed

theorem total_is_sum_of_contributions_witness:
  "no_repeated_pair scenario \<and>
   (\<exists>pairs. getIncentivizedPairs scenario = Inr pairs \<and>
      list_all (\<lambda>p. totalIncentive p = sum_incentives (addressIncentives p)) pairs)"
proof -
  have h: "no_repeated_pair scenario"
    by (simp add: no_repeated_pair_def scenario_def pref_key_def pair_key_def)
  from total_is_sum_of_contributions [OF h] h show ?thesis
    by (auto simp: list_all_iff)
qed

text \<open>
  The hypothesis is needed: when an address has two records with one pair key, the total
  counts both and the per-address map keeps the last.
\<close>

lemma repeated_pair_totals_differ:
  "\<not> no_repeated_pair repeated_pair \<and>
   getIncentivizedPairs repeated_pair =
     Inr [\<lparr>pair_token1 = ''X'', pair_token2 = ''Y'', totalIncentive = Num (3 / 4),
           addressIncentives = [(''A'', Num (1 / 4))]\<rparr>] \<and>
   sum_incentives [(''A'', Num (1 / 4))] = Num (1 / 4)"
  by (simp add: no_repeated_pair_def repeated_pair_def pref_key_def pair_key_def
      getIncentivizedPairs_def incentive_table_def add_address_def add_incentive_def
      sum_incentives_def Let_def)

section \<open>Addresses without an ownership record\<close>











lemma add_address_signedTxs_update [simp]:
  "add_address (s\<lparr>signedTxs := txs\<rparr>) = add_address s"
  by (intro ext) (simp add: add_address_def)






section \<open>Details of a pair\<close>





lemma pref_key_js_query: "pref_key_js pref = query_key_js (token1 pref) (token2 pref)"
  by (simp add: pref_key_js_def query_key_js_def)









end
